theory Spec2Isabelle
  imports Main
begin

section \<open>The legacy CMake driver (src/legacy-driver.ts)\<close>

text \<open>
  The class \<open>LegacyCMakeDriver\<close> is embedded as functions over an explicit state. Every
  method is \<open>async\<close>: it either resolves with a value or rejects with an error, and the
  fields it has assigned before rejecting stay assigned. A method is therefore a function
  from the state to a pair of an outcome (\<open>Inl\<close> the rejection, \<open>Inr\<close> the value) and the
  state it leaves behind.
\<close>

subsection \<open>Data\<close>

type_synonym path = string

datatype error = Error string

text \<open>\<open>proc.ExecutionResult\<close>: \<open>retc\<close> is \<open>number | null\<close>.\<close>

record exec_result =
  retc :: "int option"
  stdout :: string
  stderr :: string

text \<open>
  A cache snapshot (\<open>CMakeCache\<close>) maps entry keys to entries; an entry is reduced to the
  string that \<open>as<string>()\<close> yields.
\<close>

type_synonym cmake_cache = "(string \<times> string) list"

definition cache_get :: "cmake_cache \<Rightarrow> string \<Rightarrow> string option" where
  "cache_get c k = map_of c k"

record compilation_info =
  ci_directory :: path
  ci_command :: string

type_synonym compilation_database = "(path \<times> compilation_info) list"

text \<open>
  The fields of the driver. \<open>compilationDatabase\<close> is the field \<open>_compilationDatabase\<close>, a
  promise: it is kept as the outcome it settles to, a rejection or
  \<open>CompilationDatabase | null\<close>. \<open>sourceDir\<close>, \<open>binaryDir\<close> and \<open>projectName\<close> belong to
  the base class \<open>CMakeDriver\<close>.
\<close>

record driver =
  sourceDir :: path
  binaryDir :: path
  needsReconfigure :: bool
  cmakeCache :: "cmake_cache option"
  compilationDatabase :: "error + compilation_database option"
  projectName :: "string option"

text \<open>
  The calls a method makes to its collaborators, in the order it makes them.
\<close>

datatype call =
    Exists path
  | Unlink path
  | Rmdir path
  | Execute path "string list"
  | CacheFromPath path
  | CompdbFromFilePath path
  | SetProjectName string
  | Callback

text \<open>
  The whole state: the driver object, the file system \<open>disk\<close> (of a type \<open>'w\<close> that the
  collaborators interpret), the store of JavaScript arrays (\<open>arrays\<close> maps a reference to
  the array's elements, \<open>next_ref\<close> is the first reference not yet allocated), the trace
  of calls, and \<open>seen\<close>: the driver's fields as they stand each time a method is
  suspended at an \<open>await\<close>, which is what other code can read while the method waits.
\<close>

record 'w sys =
  drv :: driver
  disk :: 'w
  arrays :: "nat \<Rightarrow> string list"
  next_ref :: nat
  calls :: "call list"
  seen :: "driver list"

text \<open>
  The collaborators that the module imports and does not define: \<open>config.cmakePath\<close>,
  \<open>util.normalizePath\<close>, \<open>path.join\<close>, \<open>fs.exists\<close>, \<open>fs.unlink\<close>, \<open>fs.rmdir\<close> (module
  \<open>pr\<close>), the base class's \<open>executeCommand\<close>, \<open>CMakeCache.fromPath\<close> and
  \<open>CompilationDatabase.fromFilePath\<close>. They are parameters of the model. Their types
  follow section 6 of the specification: the process runner resolves with an execution
  result, the deletions may fail, the loaders read the disk and do not change it.
  \<open>cacheFileName\<close> is the name of the cache file inside the binary directory.
\<close>

record ('w, 'c) env =
  cmakePath :: path
  cacheFileName :: string
  normalizePath :: "path \<Rightarrow> path"
  path_join :: "path \<Rightarrow> string \<Rightarrow> path"
  fs_exists :: "path \<Rightarrow> 'w \<Rightarrow> bool"
  fs_unlink :: "path \<Rightarrow> 'w \<Rightarrow> (error + unit) \<times> 'w"
  fs_rmdir :: "path \<Rightarrow> 'w \<Rightarrow> (error + unit) \<times> 'w"
  executeCommand :: "path \<Rightarrow> string list \<Rightarrow> 'c option \<Rightarrow> 'w \<Rightarrow> exec_result \<times> 'w"
  CMakeCache_fromPath :: "path \<Rightarrow> 'w \<Rightarrow> error + cmake_cache"
  CompilationDatabase_fromFilePath :: "path \<Rightarrow> 'w \<Rightarrow> error + compilation_database option"

subsection \<open>Sequencing of asynchronous steps\<close>

type_synonym ('w, 'a) action = "'w sys \<Rightarrow> (error + 'a) \<times> 'w sys"

definition succeed :: "'a \<Rightarrow> ('w, 'a) action" where
  "succeed x s = (Inr x, s)"

text \<open>\<open>await m\<close> followed by the rest of the body: a rejection of \<open>m\<close> ends the method.\<close>

definition and_then :: "('w, 'a) action \<Rightarrow> ('a \<Rightarrow> ('w, 'b) action) \<Rightarrow> ('w, 'b) action" where
  "and_then m f s = (case m s of (Inl e, s') \<Rightarrow> (Inl e, s') | (Inr x, s') \<Rightarrow> f x s')"

definition get_drv :: "('w, driver) action" where
  "get_drv s = (Inr (drv s), s)"

definition modify_drv :: "(driver \<Rightarrow> driver) \<Rightarrow> ('w, unit) action" where
  "modify_drv f s = (Inr (), s\<lparr>drv := f (drv s)\<rparr>)"

text \<open>A call that is not awaited is only recorded in the trace.\<close>

definition log_call :: "call \<Rightarrow> 'w sys \<Rightarrow> 'w sys" where
  "log_call c s = s\<lparr>calls := calls s @ [c]\<rparr>"

text \<open>An awaited call suspends the method: the driver's fields of that moment are seen.\<close>

definition await_call :: "call \<Rightarrow> 'w sys \<Rightarrow> 'w sys" where
  "await_call c s = s\<lparr>calls := calls s @ [c], seen := seen s @ [drv s]\<rparr>"

subsection \<open>Calls to the collaborators\<close>

definition fs_exists_call :: "('w, 'c) env \<Rightarrow> path \<Rightarrow> ('w, bool) action" where
  "fs_exists_call env p s = (Inr (fs_exists env p (disk s)), await_call (Exists p) s)"

definition fs_unlink_call :: "('w, 'c) env \<Rightarrow> path \<Rightarrow> ('w, unit) action" where
  "fs_unlink_call env p s =
     (case fs_unlink env p (disk s) of (r, w) \<Rightarrow> (r, (await_call (Unlink p) s)\<lparr>disk := w\<rparr>))"

definition fs_rmdir_call :: "('w, 'c) env \<Rightarrow> path \<Rightarrow> ('w, unit) action" where
  "fs_rmdir_call env p s =
     (case fs_rmdir env p (disk s) of (r, w) \<Rightarrow> (r, (await_call (Rmdir p) s)\<lparr>disk := w\<rparr>))"

definition executeCommand_call ::
  "('w, 'c) env \<Rightarrow> path \<Rightarrow> string list \<Rightarrow> 'c option \<Rightarrow> ('w, exec_result) action" where
  "executeCommand_call env cmd argv consumer s =
     (case executeCommand env cmd argv consumer (disk s) of
        (res, w) \<Rightarrow> (Inr res, (await_call (Execute cmd argv) s)\<lparr>disk := w\<rparr>))"

definition CMakeCache_fromPath_call :: "('w, 'c) env \<Rightarrow> path \<Rightarrow> ('w, cmake_cache) action" where
  "CMakeCache_fromPath_call env p s =
     (CMakeCache_fromPath env p (disk s), await_call (CacheFromPath p) s)"

text \<open>
  The caller's callback of \<open>doSetKit\<close>, \<open>cb: () => Promise<void>\<close>. It is code of the
  caller: it cannot assign the private field \<open>_needsReconfigure\<close>, so it is a function on
  the disk that may fail.
\<close>

definition callback :: "('w \<Rightarrow> (error + unit) \<times> 'w) \<Rightarrow> ('w, unit) action" where
  "callback cb s = (case cb (disk s) of (r, w) \<Rightarrow> (r, (await_call Callback s)\<lparr>disk := w\<rparr>))"

subsection \<open>JavaScript arrays\<close>

text \<open>
  \<open>Array.from(a)\<close> allocates a new array with the elements of \<open>a\<close>; \<open>a.push(x)\<close> updates
  the array that \<open>a\<close> refers to, in place; an array literal allocates.
\<close>

definition array_new :: "string list \<Rightarrow> ('w, nat) action" where
  "array_new xs s =
     (Inr (next_ref s), s\<lparr>arrays := (arrays s)(next_ref s := xs), next_ref := Suc (next_ref s)\<rparr>)"

definition array_from :: "nat \<Rightarrow> ('w, nat) action" where
  "array_from r s = array_new (arrays s r) s"

definition array_push :: "nat \<Rightarrow> string \<Rightarrow> ('w, unit) action" where
  "array_push r x s = (Inr (), s\<lparr>arrays := (arrays s)(r := arrays s r @ [x])\<rparr>)"

definition array_read :: "nat \<Rightarrow> ('w, string list) action" where
  "array_read r s = (Inr (arrays s r), s)"

subsection \<open>Members of the base class\<close>

text \<open>
  Modelled from the spec: the getter \<open>cachePath\<close> of the base class \<open>CMakeDriver\<close> is
  defined in module \<open>driver\<close>, outside this module. The cache file is "located directly inside the binary directory"
  (section 6), at \<open>binaryDir\<close>/cache-file-name (section 4.2).
\<close>

definition cachePath :: "('w, 'c) env \<Rightarrow> driver \<Rightarrow> path" where
  "cachePath env d = path_join env (binaryDir d) (cacheFileName env)"

text \<open>
  Modelled from the spec: \<open>doSetProjectName\<close> of the base class is defined in module
  \<open>driver\<close>, outside this module.
  It is the "single designated setter" of the driver's project name (section 4.2).
\<close>

definition doSetProjectName :: "string \<Rightarrow> ('w, unit) action" where
  "doSetProjectName name s =
     (Inr (), (log_call (SetProjectName name) s)\<lparr>drv := (drv s)\<lparr>projectName := Some name\<rparr>\<rparr>)"

text \<open>
  Modelled from the spec: \<open>CompilationDatabase.getCompilationInfoForUri\<close> is defined in
  module \<open>compdb\<close>, outside this module. The lookup is to "normalize \<open>path\<close> to the Database's key form and return the
  matching record or null/None if absent" (section 4.4).
\<close>

definition getCompilationInfoForUri ::
  "('w, 'c) env \<Rightarrow> compilation_database \<Rightarrow> path \<Rightarrow> compilation_info option" where
  "getCompilationInfoForUri env db filepath = map_of db (normalizePath env filepath)"

subsection \<open>The methods of the legacy driver\<close>

text \<open>\<open>doSetKit\<close>, lines 34 to 41.\<close>

definition doSetKit ::
  "('w, 'c) env \<Rightarrow> bool \<Rightarrow> ('w \<Rightarrow> (error + unit) \<times> 'w) \<Rightarrow> ('w, unit) action" where
  "doSetKit env need_clean cb =
     and_then (modify_drv (\<lambda>d. d\<lparr>needsReconfigure := True\<rparr>)) (\<lambda>_.
     and_then get_drv (\<lambda>d.
     and_then (if need_clean then fs_rmdir_call env (binaryDir d) else succeed ()) (\<lambda>_.
     callback cb)))"

text \<open>\<open>compilationInfoForFile\<close>, lines 44 to 50.\<close>

definition compilationInfoForFile ::
  "('w, 'c) env \<Rightarrow> path \<Rightarrow> ('w, compilation_info option) action" where
  "compilationInfoForFile env filepath s =
     (case compilationDatabase (drv s) of
        Inl e \<Rightarrow> (Inl e, s)
      | Inr None \<Rightarrow> (Inr None, s)
      | Inr (Some db) \<Rightarrow> (Inr (getCompilationInfoForUri env db filepath), s))"

text \<open>
  \<open>_reloadPostConfigure\<close>, lines 120 to 129. The only \<open>await\<close> is the one of the cache
  load; the three assignments after it run without suspension. The compilation database
  is not awaited: the field receives the promise, which settles to what the loader
  reads from the disk.
\<close>

definition reloadPostConfigure :: "('w, 'c) env \<Rightarrow> ('w, unit) action" where
  "reloadPostConfigure env =
     and_then get_drv (\<lambda>d.
     and_then (CMakeCache_fromPath_call env (cachePath env d)) (\<lambda>new_cache.
     and_then (modify_drv (\<lambda>d. d\<lparr>cmakeCache := Some new_cache\<rparr>)) (\<lambda>_.
     and_then (case cache_get new_cache ''CMAKE_PROJECT_NAME'' of
                 None \<Rightarrow> succeed ()
               | Some project \<Rightarrow> doSetProjectName project) (\<lambda>_.
     (\<lambda>s. let p = path_join env (binaryDir d) ''compile_commands.json'' in
          (Inr (),
           (log_call (CompdbFromFilePath p) s)
             \<lparr>drv := (drv s)\<lparr>compilationDatabase :=
                 CompilationDatabase_fromFilePath env p (disk s)\<rparr>\<rparr>))))))"

text \<open>\<open>doConfigure\<close>, lines 57 to 72. The parameter \<open>args_\<close> of the source, a
  reference to the caller's array, is written \<open>args'\<close>.\<close>

definition doConfigure :: "('w, 'c) env \<Rightarrow> nat \<Rightarrow> 'c option \<Rightarrow> ('w, int) action" where
  "doConfigure env args' outputConsumer =
     and_then (array_from args') (\<lambda>args.
     and_then get_drv (\<lambda>d.
     and_then (array_push args (''-H'' @ normalizePath env (sourceDir d))) (\<lambda>_.
     let bindir = normalizePath env (binaryDir d) in
     and_then (array_push args (''-B'' @ bindir)) (\<lambda>_.
     and_then (array_read args) (\<lambda>argv.
     and_then (executeCommand_call env (cmakePath env) argv outputConsumer) (\<lambda>res.
     and_then (if retc res = Some 0
               then modify_drv (\<lambda>d. d\<lparr>needsReconfigure := False\<rparr>)
               else succeed ()) (\<lambda>_.
     and_then (reloadPostConfigure env) (\<lambda>_.
     succeed (case retc res of None \<Rightarrow> - 1 | Some r \<Rightarrow> r)))))))))"

text \<open>
  Modelled from the spec: \<open>configure\<close> of the base class \<open>CMakeDriver\<close> is defined in
  module \<open>driver\<close>, outside this module. The specification describes \<open>configure(extraArgs, outputConsumer)\<close> as the
  operation that \<open>doConfigure\<close> implements (section 4.1), so it hands its arguments on.
  The argument of the call in \<open>cleanConfigure\<close> is an array literal.
\<close>

definition configure :: "('w, 'c) env \<Rightarrow> string list \<Rightarrow> 'c option \<Rightarrow> ('w, int) action" where
  "configure env extra_args consumer =
     and_then (array_new extra_args) (\<lambda>r. doConfigure env r consumer)"

text \<open>\<open>cleanConfigure\<close>, lines 74 to 87.\<close>

definition cleanConfigure :: "('w, 'c) env \<Rightarrow> 'c option \<Rightarrow> ('w, int) action" where
  "cleanConfigure env consumer =
     and_then get_drv (\<lambda>d.
     let build_dir = binaryDir d;
         cache = cachePath env d;
         cmake_files = path_join env build_dir ''CMakeFiles'' in
     and_then (fs_exists_call env cache) (\<lambda>cache_exists.
     and_then (if cache_exists then fs_unlink_call env cache else succeed ()) (\<lambda>_.
     and_then (fs_exists_call env cmake_files) (\<lambda>cmake_files_exists.
     and_then (if cmake_files_exists then fs_rmdir_call env cmake_files else succeed ()) (\<lambda>_.
     configure env [] consumer)))))"

text \<open>\<open>doPostBuild\<close>, lines 89 to 92.\<close>

definition doPostBuild :: "('w, 'c) env \<Rightarrow> ('w, bool) action" where
  "doPostBuild env = and_then (reloadPostConfigure env) (\<lambda>_. succeed True)"

text \<open>
  The field initialisers of the class (lines 31, 43 and 118): a new driver needs a
  configure, has no cache and has a promise already resolved with \<open>null\<close>.
\<close>

definition new_driver :: "path \<Rightarrow> path \<Rightarrow> driver" where
  "new_driver src bin =
     \<lparr>sourceDir = src, binaryDir = bin, needsReconfigure = True, cmakeCache = None,
      compilationDatabase = Inr None, projectName = None\<rparr>"

subsection \<open>Notions used by the properties\<close>

text \<open>The calls of the trace that run the build tool.\<close>

definition is_Execute :: "call \<Rightarrow> bool" where
  "is_Execute c = (case c of Execute cmd argv \<Rightarrow> True | _ \<Rightarrow> False)"

text \<open>
  What the claims about the clean operations expect of the deletions of module \<open>pr\<close>,
  which lies outside this module: a deletion that succeeds leaves nothing at its path
  (\<open>fs.rmdir\<close> "deletes the entire binary directory tree", section 4.1), and the removal
  of a directory creates nothing.
\<close>

definition unlink_removes :: "('w, 'c) env \<Rightarrow> bool" where
  "unlink_removes env \<longleftrightarrow>
     (\<forall>p w w'. fs_unlink env p w = (Inr (), w') \<longrightarrow> \<not> fs_exists env p w')"

definition rmdir_removes :: "('w, 'c) env \<Rightarrow> bool" where
  "rmdir_removes env \<longleftrightarrow>
     (\<forall>p w w'. fs_rmdir env p w = (Inr (), w') \<longrightarrow> \<not> fs_exists env p w')"

definition rmdir_creates_nothing :: "('w, 'c) env \<Rightarrow> bool" where
  "rmdir_creates_nothing env \<longleftrightarrow>
     (\<forall>p q w w'. fs_rmdir env p w = (Inr (), w') \<longrightarrow>
        \<not> fs_exists env q w \<longrightarrow> \<not> fs_exists env q w')"

text \<open>
  The statements of \<open>cleanConfigure\<close> before its call of \<open>configure\<close> (lines 75 to 85):
  the two removals.
\<close>

definition cleanConfigure_removals :: "('w, 'c) env \<Rightarrow> ('w, unit) action" where
  "cleanConfigure_removals env =
     and_then get_drv (\<lambda>d.
     let build_dir = binaryDir d;
         cache = cachePath env d;
         cmake_files = path_join env build_dir ''CMakeFiles'' in
     and_then (fs_exists_call env cache) (\<lambda>cache_exists.
     and_then (if cache_exists then fs_unlink_call env cache else succeed ()) (\<lambda>_.
     and_then (fs_exists_call env cmake_files) (\<lambda>cmake_files_exists.
     if cmake_files_exists then fs_rmdir_call env cmake_files else succeed ()))))"

subsection \<open>A reference instance of the collaborators\<close>

text \<open>
  Modelled from the spec: the modules \<open>pr\<close>, \<open>proc\<close>, \<open>cache\<close>, \<open>compdb\<close> and \<open>util\<close> lie
  outside this module. This instance follows the contracts of section 6 and serves to
  run the methods on concrete inputs: a disk is a list of paths with what they hold, a
  list of paths that cannot be deleted, and the script of the build tool (the exit code
  it returns and the files it writes). \<open>rmdir\<close> deletes a whole tree; loading a cache
  fails unless the path holds a readable cache; loading a compilation database yields
  \<open>null\<close> unless the path holds one.
\<close>

datatype node = Dir | CacheText cmake_cache | CompdbText compilation_database | Garbage

record sim_disk =
  files :: "(path \<times> node) list"
  locked :: "path list"
  tool_retc :: "int option"
  tool_writes :: "(path \<times> node) list"

definition below :: "path \<Rightarrow> path \<Rightarrow> bool" where
  "below p q = (q = p \<or> take (Suc (length p)) q = p @ ''/'')"

definition sim_exists :: "path \<Rightarrow> sim_disk \<Rightarrow> bool" where
  "sim_exists p w = (map_of (files w) p \<noteq> None)"

definition sim_unlink :: "path \<Rightarrow> sim_disk \<Rightarrow> (error + unit) \<times> sim_disk" where
  "sim_unlink p w =
     (if List.member (locked w) p \<or> map_of (files w) p = None \<or> map_of (files w) p = Some Dir
      then (Inl (Error ''unlink failed''), w)
      else (Inr (), w\<lparr>files := filter (\<lambda>(q, n). q \<noteq> p) (files w)\<rparr>))"

definition sim_rmdir :: "path \<Rightarrow> sim_disk \<Rightarrow> (error + unit) \<times> sim_disk" where
  "sim_rmdir p w =
     (if list_ex (below p) (locked w)
      then (Inl (Error ''rmdir failed''), w)
      else (Inr (), w\<lparr>files := filter (\<lambda>(q, n). \<not> below p q) (files w)\<rparr>))"

definition sim_execute ::
  "path \<Rightarrow> string list \<Rightarrow> unit option \<Rightarrow> sim_disk \<Rightarrow> exec_result \<times> sim_disk" where
  "sim_execute cmd argv consumer w =
     (\<lparr>retc = tool_retc w, stdout = [], stderr = []\<rparr>,
      w\<lparr>files := tool_writes w @ files w\<rparr>)"

definition sim_cache_fromPath :: "path \<Rightarrow> sim_disk \<Rightarrow> error + cmake_cache" where
  "sim_cache_fromPath p w =
     (case map_of (files w) p of
        Some (CacheText c) \<Rightarrow> Inr c
      | _ \<Rightarrow> Inl (Error ''cannot load the cache''))"

definition sim_compdb_fromFilePath ::
  "path \<Rightarrow> sim_disk \<Rightarrow> error + compilation_database option" where
  "sim_compdb_fromFilePath p w =
     (case map_of (files w) p of
        Some (CompdbText db) \<Rightarrow> Inr (Some db)
      | _ \<Rightarrow> Inr None)"

definition sim_env :: "(sim_disk, unit) env" where
  "sim_env =
     \<lparr>cmakePath = ''cmake'',
      cacheFileName = ''CMakeCache.txt'',
      normalizePath = map (\<lambda>c. if c = CHR 0x5C then CHR ''/'' else c),
      path_join = (\<lambda>a b. a @ ''/'' @ b),
      fs_exists = sim_exists,
      fs_unlink = sim_unlink,
      fs_rmdir = sim_rmdir,
      executeCommand = sim_execute,
      CMakeCache_fromPath = sim_cache_fromPath,
      CompilationDatabase_fromFilePath = sim_compdb_fromFilePath\<rparr>"

text \<open>
  A driver for the source tree \<open>/p\<close> built in \<open>/p/b\<close>, on a given disk; the array with
  reference 0 is the caller's argument array.
\<close>

definition sim_sys :: "driver \<Rightarrow> string list \<Rightarrow> sim_disk \<Rightarrow> sim_disk sys" where
  "sim_sys d caller_args w =
     \<lparr>drv = d, disk = w, arrays = (\<lambda>r. if r = 0 then caller_args else []), next_ref = 1,
      calls = [], seen = []\<rparr>"

definition sim_disk_of :: "(path \<times> node) list \<Rightarrow> int option \<Rightarrow> (path \<times> node) list \<Rightarrow> sim_disk" where
  "sim_disk_of fs rc writes = \<lparr>files = fs, locked = [], tool_retc = rc, tool_writes = writes\<rparr>"

text \<open>
  A new driver for the source tree \<open>/p\<close>, built in \<open>/p/b\<close>, whose caller passes the
  array \<open>["-DX=1"]\<close>; the build tool exits with the code \<open>rc\<close> and writes a cache that
  names the project \<open>Foo\<close>.
\<close>

definition sim_tool :: "int option \<Rightarrow> sim_disk" where
  "sim_tool rc =
     sim_disk_of [] rc [(''/p/b/CMakeCache.txt'', CacheText [(''CMAKE_PROJECT_NAME'', ''Foo'')])]"

definition sim_fresh :: "int option \<Rightarrow> sim_disk sys" where
  "sim_fresh rc = sim_sys (new_driver ''/p'' ''/p/b'') [''-DX=1''] (sim_tool rc)"

text \<open>
  The state after a configure with exit code 0 on that driver, with a build tool that
  exits with code 1 from then on.
\<close>

definition sim_failing_again :: "sim_disk sys" where
  "sim_failing_again =
     (let s1 = snd (doConfigure sim_env 0 None (sim_fresh (Some 0)))
      in s1\<lparr>disk := (disk s1)\<lparr>tool_retc := Some 1\<rparr>\<rparr>)"

text \<open>
  The state of a new driver whose build tool exits with code 0 and leaves a cache file
  that cannot be parsed.
\<close>

definition sim_bad_cache :: "sim_disk sys" where
  "sim_bad_cache =
     sim_sys (new_driver ''/p'' ''/p/b'') [''-DX=1'']
       (sim_disk_of [] (Some 0) [(''/p/b/CMakeCache.txt'', Garbage)])"

text \<open>
  A binary directory that holds a cache, the intermediate files of the build tool and a
  compilation database, next to a source file; \<open>lk\<close> lists the paths that cannot be
  deleted.
\<close>

definition sim_built :: "path list \<Rightarrow> sim_disk" where
  "sim_built lk =
     \<lparr>files = [(''/p/main.c'', Garbage),
               (''/p/b'', Dir),
               (''/p/b/CMakeCache.txt'', CacheText [(''CMAKE_PROJECT_NAME'', ''Foo'')]),
               (''/p/b/CMakeFiles'', Dir),
               (''/p/b/CMakeFiles/a.o'', Garbage),
               (''/p/b/compile_commands.json'',
                CompdbText [(''/p/main.c'', \<lparr>ci_directory = ''/p/b'', ci_command = ''cc -c main.c''\<rparr>)])],
      locked = lk, tool_retc = Some 0,
      tool_writes = [(''/p/b/CMakeCache.txt'', CacheText [(''CMAKE_PROJECT_NAME'', ''Foo'')])]\<rparr>"

section \<open>Properties\<close>

lemmas action_defs =
  succeed_def and_then_def get_drv_def modify_drv_def log_call_def await_call_def
  fs_exists_call_def fs_unlink_call_def fs_rmdir_call_def executeCommand_call_def
  CMakeCache_fromPath_call_def callback_def array_new_def array_from_def array_push_def
  array_read_def doSetProjectName_def

lemmas sim_defs =
  sim_env_def sim_sys_def sim_disk_of_def sim_exists_def sim_unlink_def sim_rmdir_def
  sim_execute_def sim_cache_fromPath_def sim_compdb_fromFilePath_def below_def
  new_driver_def cachePath_def cache_get_def sim_tool_def sim_fresh_def

subsection \<open>Steps that cannot fail\<close>

lemma is_Execute_simps [simp]:
  "is_Execute (Execute cmd argv)"
  "\<not> is_Execute (Exists p)"
  "\<not> is_Execute (Unlink p)"
  "\<not> is_Execute (Rmdir p)"
  "\<not> is_Execute (CacheFromPath p)"
  "\<not> is_Execute (CompdbFromFilePath p)"
  "\<not> is_Execute (SetProjectName n)"
  "\<not> is_Execute Callback"
  by (simp_all add: is_Execute_def)

lemma and_then_get_drv: "and_then get_drv f s = f (drv s) s"
  by (simp add: and_then_def get_drv_def)

lemma and_then_modify_drv: "and_then (modify_drv g) f s = f () (s\<lparr>drv := g (drv s)\<rparr>)"
  by (simp add: and_then_def modify_drv_def)

lemma and_then_succeed: "and_then (succeed x) f s = f x s"
  by (simp add: and_then_def succeed_def)

lemma and_then_if:
  "and_then (if c then m else n) f s = (if c then and_then m f s else and_then n f s)"
  by simp

lemma and_then_array_new:
  "and_then (array_new xs) f s =
     f (next_ref s) (s\<lparr>arrays := (arrays s)(next_ref s := xs), next_ref := Suc (next_ref s)\<rparr>)"
  by (simp add: and_then_def array_new_def)

lemma and_then_array_from:
  "and_then (array_from r) f s =
     f (next_ref s)
       (s\<lparr>arrays := (arrays s)(next_ref s := arrays s r), next_ref := Suc (next_ref s)\<rparr>)"
  by (simp add: and_then_def array_from_def array_new_def)

lemma and_then_array_push:
  "and_then (array_push r x) f s = f () (s\<lparr>arrays := (arrays s)(r := arrays s r @ [x])\<rparr>)"
  by (simp add: and_then_def array_push_def)

lemma and_then_array_read: "and_then (array_read r) f s = f (arrays s r) s"
  by (simp add: and_then_def array_read_def)

lemma and_then_exists:
  "and_then (fs_exists_call env p) f s =
     f (fs_exists env p (disk s)) (await_call (Exists p) s)"
  by (simp add: and_then_def fs_exists_call_def)

lemma and_then_execute:
  "and_then (executeCommand_call env cmd argv oc) f s =
     f (fst (executeCommand env cmd argv oc (disk s)))
       ((await_call (Execute cmd argv) s)
          \<lparr>disk := snd (executeCommand env cmd argv oc (disk s))\<rparr>)"
  by (simp add: and_then_def executeCommand_call_def split_beta)

text \<open>A method that ends with an awaited action and then returns a value.\<close>

lemma and_then_last_fst:
  "fst (and_then m (\<lambda>x. succeed (g x)) s) =
     (case fst (m s) of Inl e \<Rightarrow> Inl e | Inr x \<Rightarrow> Inr (g x))"
  by (simp add: and_then_def succeed_def split: prod.splits sum.splits)

lemma and_then_last_snd: "snd (and_then m (\<lambda>x. succeed (g x)) s) = snd (m s)"
  by (simp add: and_then_def succeed_def split: prod.splits sum.splits)

lemmas steps =
  and_then_get_drv and_then_modify_drv and_then_succeed and_then_if and_then_array_new
  and_then_array_from and_then_array_push and_then_array_read and_then_exists
  and_then_execute and_then_last_fst and_then_last_snd await_call_def log_call_def Let_def

subsection \<open>The reload, field by field\<close>

lemma reload_fst:
  "fst (reloadPostConfigure env s) =
     (case CMakeCache_fromPath env (cachePath env (drv s)) (disk s) of
        Inl e \<Rightarrow> Inl e
      | Inr c \<Rightarrow> Inr ())"
  by (simp add: reloadPostConfigure_def action_defs Let_def split: sum.splits option.splits)

lemma reload_drv:
  "drv (snd (reloadPostConfigure env s)) =
     (case CMakeCache_fromPath env (cachePath env (drv s)) (disk s) of
        Inl e \<Rightarrow> drv s
      | Inr c \<Rightarrow>
          (drv s)\<lparr>cmakeCache := Some c,
                  projectName := (case cache_get c ''CMAKE_PROJECT_NAME'' of
                                    None \<Rightarrow> projectName (drv s)
                                  | Some n \<Rightarrow> Some n),
                  compilationDatabase :=
                    CompilationDatabase_fromFilePath env
                      (path_join env (binaryDir (drv s)) ''compile_commands.json'') (disk s)\<rparr>)"
  by (simp add: reloadPostConfigure_def action_defs Let_def split: sum.splits option.splits)

lemma reload_calls:
  "calls (snd (reloadPostConfigure env s)) =
     calls s @ CacheFromPath (cachePath env (drv s)) #
       (case CMakeCache_fromPath env (cachePath env (drv s)) (disk s) of
          Inl e \<Rightarrow> []
        | Inr c \<Rightarrow>
            (case cache_get c ''CMAKE_PROJECT_NAME'' of
               None \<Rightarrow> []
             | Some n \<Rightarrow> [SetProjectName n]) @
            [CompdbFromFilePath (path_join env (binaryDir (drv s)) ''compile_commands.json'')])"
  by (simp add: reloadPostConfigure_def action_defs Let_def split: sum.splits option.splits)

lemma reload_seen: "seen (snd (reloadPostConfigure env s)) = seen s @ [drv s]"
  by (simp add: reloadPostConfigure_def action_defs Let_def split: sum.splits option.splits)

lemma reload_disk: "disk (snd (reloadPostConfigure env s)) = disk s"
  by (simp add: reloadPostConfigure_def action_defs Let_def split: sum.splits option.splits)

lemma reload_arrays: "arrays (snd (reloadPostConfigure env s)) = arrays s"
  by (simp add: reloadPostConfigure_def action_defs Let_def split: sum.splits option.splits)

lemma reload_next_ref: "next_ref (snd (reloadPostConfigure env s)) = next_ref s"
  by (simp add: reloadPostConfigure_def action_defs Let_def split: sum.splits option.splits)

lemmas reload_fields =
  reload_fst reload_drv reload_calls reload_seen reload_disk reload_arrays reload_next_ref

subsection \<open>configure, field by field\<close>

lemma doConfigure_fst:
  "fst (doConfigure env a oc s) =
     (case CMakeCache_fromPath env (cachePath env (drv s)) (snd (executeCommand env (cmakePath env)
         (arrays s a @ [''-H'' @ normalizePath env (sourceDir (drv s)),
                         ''-B'' @ normalizePath env (binaryDir (drv s))]) oc (disk s))) of
        Inl e \<Rightarrow> Inl e
      | Inr c \<Rightarrow> Inr (case retc (fst (executeCommand env (cmakePath env)
         (arrays s a @ [''-H'' @ normalizePath env (sourceDir (drv s)),
                         ''-B'' @ normalizePath env (binaryDir (drv s))]) oc (disk s))) of None \<Rightarrow> - 1 | Some r \<Rightarrow> r))"
  by (simp add: doConfigure_def steps reload_fields cachePath_def split: sum.splits option.splits)

lemma doConfigure_drv:
  "drv (snd (doConfigure env a oc s)) =
     (let d = (if retc (fst (executeCommand env (cmakePath env)
         (arrays s a @ [''-H'' @ normalizePath env (sourceDir (drv s)),
                         ''-B'' @ normalizePath env (binaryDir (drv s))]) oc (disk s))) = Some 0
               then (drv s)\<lparr>needsReconfigure := False\<rparr> else drv s)
      in case CMakeCache_fromPath env (cachePath env (drv s)) (snd (executeCommand env (cmakePath env)
         (arrays s a @ [''-H'' @ normalizePath env (sourceDir (drv s)),
                         ''-B'' @ normalizePath env (binaryDir (drv s))]) oc (disk s))) of
           Inl e \<Rightarrow> d
         | Inr c \<Rightarrow>
             d\<lparr>cmakeCache := Some c,
               projectName := (case cache_get c ''CMAKE_PROJECT_NAME'' of
                                 None \<Rightarrow> projectName (drv s)
                               | Some n \<Rightarrow> Some n),
               compilationDatabase :=
                 CompilationDatabase_fromFilePath env
                   (path_join env (binaryDir (drv s)) ''compile_commands.json'') (snd (executeCommand env (cmakePath env)
         (arrays s a @ [''-H'' @ normalizePath env (sourceDir (drv s)),
                         ''-B'' @ normalizePath env (binaryDir (drv s))]) oc (disk s)))\<rparr>)"
  by (simp add: doConfigure_def steps reload_fields cachePath_def split: sum.splits option.splits)

lemma doConfigure_calls:
  "calls (snd (doConfigure env a oc s)) =
     calls s @ Execute (cmakePath env) (arrays s a @ [''-H'' @ normalizePath env (sourceDir (drv s)),
                       ''-B'' @ normalizePath env (binaryDir (drv s))]) # CacheFromPath (cachePath env (drv s)) #
       (case CMakeCache_fromPath env (cachePath env (drv s)) (snd (executeCommand env (cmakePath env)
         (arrays s a @ [''-H'' @ normalizePath env (sourceDir (drv s)),
                         ''-B'' @ normalizePath env (binaryDir (drv s))]) oc (disk s))) of
          Inl e \<Rightarrow> []
        | Inr c \<Rightarrow>
            (case cache_get c ''CMAKE_PROJECT_NAME'' of
               None \<Rightarrow> []
             | Some n \<Rightarrow> [SetProjectName n]) @
            [CompdbFromFilePath (path_join env (binaryDir (drv s)) ''compile_commands.json'')])"
  by (simp add: doConfigure_def steps reload_fields cachePath_def split: sum.splits option.splits)

lemma doConfigure_seen:
  "seen (snd (doConfigure env a oc s)) =
     seen s @ [drv s, if retc (fst (executeCommand env (cmakePath env)
         (arrays s a @ [''-H'' @ normalizePath env (sourceDir (drv s)),
                         ''-B'' @ normalizePath env (binaryDir (drv s))]) oc (disk s))) = Some 0
                      then (drv s)\<lparr>needsReconfigure := False\<rparr> else drv s]"
  by (simp add: doConfigure_def steps reload_fields cachePath_def split: sum.splits option.splits)

lemma doConfigure_disk:
  "disk (snd (doConfigure env a oc s)) = snd (executeCommand env (cmakePath env)
         (arrays s a @ [''-H'' @ normalizePath env (sourceDir (drv s)),
                         ''-B'' @ normalizePath env (binaryDir (drv s))]) oc (disk s))"
  by (simp add: doConfigure_def steps reload_fields cachePath_def split: sum.splits option.splits)

lemma doConfigure_arrays:
  "arrays (snd (doConfigure env a oc s)) = (arrays s)(next_ref s := (arrays s a @ [''-H'' @ normalizePath env (sourceDir (drv s)),
                       ''-B'' @ normalizePath env (binaryDir (drv s))]))"
  by (simp add: doConfigure_def steps reload_fields cachePath_def split: sum.splits option.splits)

lemma doConfigure_next_ref:
  "next_ref (snd (doConfigure env a oc s)) = Suc (next_ref s)"
  by (simp add: doConfigure_def steps reload_fields cachePath_def split: sum.splits option.splits)

lemmas doConfigure_fields =
  doConfigure_fst doConfigure_drv doConfigure_calls doConfigure_seen doConfigure_disk
  doConfigure_arrays doConfigure_next_ref

subsection \<open>configure: the flag and the returned code\<close>

text \<open>
  Claim C1, as amended. Let the process runner, called with the argument list of
  \<open>doConfigure\<close>, return the result \<open>res\<close> and leave the disk \<open>w\<close>. If the exit code is 0,
  \<open>needsReconfigure\<close> is false after the call. For every other exit code, \<open>null\<close>
  included, the call leaves \<open>needsReconfigure\<close> as it was before the call (so it remains
  true when it was true). When the reload that follows succeeds, the call returns the
  exit code, \<open>- 1\<close> for \<open>null\<close>; when the cache cannot be loaded, the call rejects with
  that error.
\<close>

theorem doConfigure_flag_and_code:
  assumes "executeCommand env (cmakePath env)
             (arrays s a @ [''-H'' @ normalizePath env (sourceDir (drv s)),
                            ''-B'' @ normalizePath env (binaryDir (drv s))]) oc (disk s) = (res, w)"
  shows "(retc res = Some 0 \<longrightarrow> \<not> needsReconfigure (drv (snd (doConfigure env a oc s))))
       \<and> (retc res \<noteq> Some 0 \<longrightarrow>
            needsReconfigure (drv (snd (doConfigure env a oc s))) = needsReconfigure (drv s))
       \<and> (case CMakeCache_fromPath env (cachePath env (drv s)) w of
            Inl e \<Rightarrow> fst (doConfigure env a oc s) = Inl e
          | Inr c \<Rightarrow> fst (doConfigure env a oc s) =
                      Inr (case retc res of None \<Rightarrow> - 1 | Some r \<Rightarrow> r))"
  using assms
  by (simp add: doConfigure_fields Let_def split: sum.splits option.splits)

text \<open>
  The theorem at three runs on a new driver: exit code 0, exit code 1 and an abnormal
  termination.
\<close>

theorem doConfigure_flag_and_code_witness:
  "(\<not> needsReconfigure (drv (snd (doConfigure sim_env 0 None (sim_fresh (Some 0))))) \<and>
    fst (doConfigure sim_env 0 None (sim_fresh (Some 0))) = Inr 0) \<and>
   (needsReconfigure (drv (snd (doConfigure sim_env 0 None (sim_fresh (Some 1))))) \<and>
    fst (doConfigure sim_env 0 None (sim_fresh (Some 1))) = Inr 1) \<and>
   (needsReconfigure (drv (snd (doConfigure sim_env 0 None (sim_fresh None)))) \<and>
    fst (doConfigure sim_env 0 None (sim_fresh None)) = Inr (- 1))"
proof -
  let ?w = "\<lambda>rc. (sim_tool rc)\<lparr>files := tool_writes (sim_tool rc) @ files (sim_tool rc)\<rparr>"
  have ex: "executeCommand sim_env (cmakePath sim_env)
             (arrays (sim_fresh rc) 0 @
                [''-H'' @ normalizePath sim_env (sourceDir (drv (sim_fresh rc))),
                 ''-B'' @ normalizePath sim_env (binaryDir (drv (sim_fresh rc)))])
             None (disk (sim_fresh rc))
           = (\<lparr>retc = rc, stdout = [], stderr = []\<rparr>, ?w rc)" for rc
    by (simp add: sim_defs)
  have ld: "CMakeCache_fromPath sim_env (cachePath sim_env (drv (sim_fresh rc))) (?w rc)
            = Inr [(''CMAKE_PROJECT_NAME'', ''Foo'')]" for rc
    by (simp add: sim_defs)
  have fl: "needsReconfigure (drv (sim_fresh rc))" for rc
    by (simp add: sim_defs)
  show ?thesis
    using doConfigure_flag_and_code [OF ex [of "Some 0"]]
      doConfigure_flag_and_code [OF ex [of "Some 1"]]
      doConfigure_flag_and_code [OF ex [of None]]
    by (simp add: ld fl)
qed

text \<open>
  Claim C1 as stated fails: a driver is configured with exit code 0, then configured
  again with a build tool that exits with code 1. The second call has an exit code other
  than 0 and \<open>needsReconfigure\<close> is false after it.
\<close>

theorem doConfigure_failure_after_success_counterexample:
  "needsReconfigure (drv (sim_fresh (Some 0))) \<and>
   retc (fst (executeCommand sim_env (cmakePath sim_env) [''-DX=1'', ''-H/p'', ''-B/p/b'']
          None (disk sim_failing_again))) = Some 1 \<and>
   fst (doConfigure sim_env 0 None sim_failing_again) = Inr 1 \<and>
   \<not> needsReconfigure (drv (snd (doConfigure sim_env 0 None sim_failing_again)))"
  by (simp add: doConfigure_fields sim_defs sim_failing_again_def Let_def)

subsection \<open>configure: the process, then the reload\<close>

text \<open>
  Claim C2. In every call of \<open>doConfigure\<close> the trace of calls is extended by the run of
  the build tool, then by the cache load with which the reload starts, then by the rest
  of the reload. The exit code does not occur in the statement: the reload is made after
  every run. It reads the disk that the process has left: the snapshots installed are
  those loaded from that disk, and a cache that cannot be loaded there rejects the call.
\<close>

theorem doConfigure_runs_then_reloads:
  "(let argv = arrays s a @ [''-H'' @ normalizePath env (sourceDir (drv s)),
                             ''-B'' @ normalizePath env (binaryDir (drv s))];
        w = snd (executeCommand env (cmakePath env) argv oc (disk s));
        db_path = path_join env (binaryDir (drv s)) ''compile_commands.json'';
        s' = snd (doConfigure env a oc s)
    in calls s' =
         calls s @ Execute (cmakePath env) argv # CacheFromPath (cachePath env (drv s)) #
           (case CMakeCache_fromPath env (cachePath env (drv s)) w of
              Inl e \<Rightarrow> []
            | Inr c \<Rightarrow>
                (case cache_get c ''CMAKE_PROJECT_NAME'' of
                   None \<Rightarrow> []
                 | Some n \<Rightarrow> [SetProjectName n]) @ [CompdbFromFilePath db_path])
       \<and> (case CMakeCache_fromPath env (cachePath env (drv s)) w of
            Inl e \<Rightarrow> fst (doConfigure env a oc s) = Inl e
          | Inr c \<Rightarrow> cmakeCache (drv s') = Some c \<and>
                     compilationDatabase (drv s') =
                       CompilationDatabase_fromFilePath env db_path w))"
  by (simp add: doConfigure_fields Let_def split: sum.splits option.splits)

subsection \<open>configure: the argument list\<close>

text \<open>
  Claim C7. A call of \<open>doConfigure\<close> runs the build tool exactly once, and the argument
  list of that run is the caller's arguments followed by \<open>-H\<close> with the normalized source
  directory and then \<open>-B\<close> with the normalized binary directory. The disk after the call
  is the one the process runner has left when given that list.
\<close>

theorem doConfigure_argument_list:
  "(let argv = arrays s a @ [''-H'' @ normalizePath env (sourceDir (drv s)),
                             ''-B'' @ normalizePath env (binaryDir (drv s))]
    in filter is_Execute (calls (snd (doConfigure env a oc s))) =
         filter is_Execute (calls s) @ [Execute (cmakePath env) argv]
       \<and> disk (snd (doConfigure env a oc s)) =
           snd (executeCommand env (cmakePath env) argv oc (disk s)))"
  by (simp add: doConfigure_fields Let_def split: sum.splits option.splits)

subsection \<open>configure: a reload that fails after a successful run\<close>

text \<open>
  Claim C9. Let the build tool exit with code 0. The driver is seen twice while
  \<open>doConfigure\<close> is suspended: unchanged while the process runs, and with
  \<open>needsReconfigure\<close> already false while the reload waits for the cache. If the cache
  then cannot be loaded, the call rejects with that error, returns no exit code, and
  leaves the driver with \<open>needsReconfigure\<close> false and nothing else changed.
\<close>

theorem doConfigure_flag_cleared_before_reload:
  assumes "executeCommand env (cmakePath env)
             (arrays s a @ [''-H'' @ normalizePath env (sourceDir (drv s)),
                            ''-B'' @ normalizePath env (binaryDir (drv s))]) oc (disk s) = (res, w)"
    and "retc res = Some 0"
  shows "seen (snd (doConfigure env a oc s)) =
           seen s @ [drv s, (drv s)\<lparr>needsReconfigure := False\<rparr>]
       \<and> (\<forall>e. CMakeCache_fromPath env (cachePath env (drv s)) w = Inl e \<longrightarrow>
              fst (doConfigure env a oc s) = Inl e \<and>
              drv (snd (doConfigure env a oc s)) = (drv s)\<lparr>needsReconfigure := False\<rparr>)"
  using assms
  by (simp add: doConfigure_fields Let_def split: sum.splits option.splits)

theorem doConfigure_flag_cleared_before_reload_witness:
  "needsReconfigure (drv sim_bad_cache) \<and>
   fst (doConfigure sim_env 0 None sim_bad_cache) = Inl (Error ''cannot load the cache'') \<and>
   \<not> needsReconfigure (drv (snd (doConfigure sim_env 0 None sim_bad_cache))) \<and>
   map needsReconfigure (seen (snd (doConfigure sim_env 0 None sim_bad_cache))) = [True, False]"
proof -
  let ?w = "sim_disk_of [(''/p/b/CMakeCache.txt'', Garbage)] (Some 0)
              [(''/p/b/CMakeCache.txt'', Garbage)]"
  have ex: "executeCommand sim_env (cmakePath sim_env)
             (arrays sim_bad_cache 0 @
                [''-H'' @ normalizePath sim_env (sourceDir (drv sim_bad_cache)),
                 ''-B'' @ normalizePath sim_env (binaryDir (drv sim_bad_cache))])
             None (disk sim_bad_cache)
           = (\<lparr>retc = Some 0, stdout = [], stderr = []\<rparr>, ?w)"
    by (simp add: sim_defs sim_bad_cache_def)
  have rc: "retc \<lparr>retc = Some 0, stdout = [], stderr = []\<rparr> = Some 0"
    by simp
  have ld: "CMakeCache_fromPath sim_env (cachePath sim_env (drv sim_bad_cache)) ?w
            = Inl (Error ''cannot load the cache'')"
    by (simp add: sim_defs sim_bad_cache_def)
  have d0: "needsReconfigure (drv sim_bad_cache)" "seen sim_bad_cache = []"
    by (simp_all add: sim_defs sim_bad_cache_def)
  show ?thesis
    using doConfigure_flag_cleared_before_reload [OF ex rc] ld d0
    by simp
qed

subsection \<open>configure: the caller's array\<close>

text \<open>
  Claim C10. When \<open>a\<close> refers to an allocated array, \<open>doConfigure\<close> leaves that array, and
  every other array allocated before the call, as it was. The two generated arguments
  are pushed to one newly allocated array, which starts as a copy of the caller's.
\<close>

theorem doConfigure_keeps_caller_array:
  assumes "a < next_ref s"
  shows "arrays (snd (doConfigure env a oc s)) a = arrays s a
       \<and> (\<forall>r. r < next_ref s \<longrightarrow> arrays (snd (doConfigure env a oc s)) r = arrays s r)
       \<and> arrays (snd (doConfigure env a oc s)) (next_ref s) =
           arrays s a @ [''-H'' @ normalizePath env (sourceDir (drv s)),
                         ''-B'' @ normalizePath env (binaryDir (drv s))]
       \<and> next_ref (snd (doConfigure env a oc s)) = Suc (next_ref s)"
  using assms
  by (simp add: doConfigure_fields Let_def split: sum.splits option.splits)

theorem doConfigure_keeps_caller_array_witness:
  "(0::nat) < next_ref (sim_fresh (Some 0)) \<and>
   arrays (snd (doConfigure sim_env 0 None (sim_fresh (Some 0)))) 0 = [''-DX=1''] \<and>
   arrays (snd (doConfigure sim_env 0 None (sim_fresh (Some 0)))) 1 =
     [''-DX=1'', ''-H/p'', ''-B/p/b'']"
proof -
  have a: "0 < next_ref (sim_fresh (Some 0))"
    by (simp add: sim_defs)
  have b: "arrays (sim_fresh (Some 0)) 0 = [''-DX=1'']" "next_ref (sim_fresh (Some 0)) = 1"
    "normalizePath sim_env (sourceDir (drv (sim_fresh (Some 0)))) = ''/p''"
    "normalizePath sim_env (binaryDir (drv (sim_fresh (Some 0)))) = ''/p/b''"
    by (simp_all add: sim_defs)
  show ?thesis
    using doConfigure_keeps_caller_array [OF a, of sim_env None] b
    by simp
qed

subsection \<open>reload: both snapshots or neither\<close>

text \<open>
  Claim C3. A reload suspends once, at the load of the cache, and the driver seen there
  is the one from before the reload. The disk is left as it was. If the cache at
  \<open>binaryDir\<close>/cache-file-name cannot be loaded, the reload rejects and the driver is
  unchanged. Otherwise the reload resolves, the cache field holds the snapshot loaded
  from that path and the compilation database field holds what the loader yields for
  \<open>binaryDir\<close>/\<open>compile_commands.json\<close> on the same disk: both fields are replaced in
  the one step after the suspension.
\<close>

theorem reload_replaces_both_or_neither:
  "(let cache_path = path_join env (binaryDir (drv s)) (cacheFileName env);
        db_path = path_join env (binaryDir (drv s)) ''compile_commands.json'';
        s' = snd (reloadPostConfigure env s)
    in seen s' = seen s @ [drv s] \<and> disk s' = disk s \<and>
       (case CMakeCache_fromPath env cache_path (disk s) of
          Inl e \<Rightarrow> fst (reloadPostConfigure env s) = Inl e \<and> drv s' = drv s
        | Inr c \<Rightarrow>
            fst (reloadPostConfigure env s) = Inr () \<and>
            cmakeCache (drv s') = Some c \<and>
            compilationDatabase (drv s') = CompilationDatabase_fromFilePath env db_path (disk s)))"
  by (simp add: reload_fields cachePath_def Let_def split: sum.splits)

subsection \<open>reload: twice in succession\<close>

text \<open>
  Claim C8. Let a reload be followed by a second reload, on a disk \<open>w\<close> for which the two
  loaders yield the same as on the disk of the first reload, for the cache file and for
  the compile-commands file. Then the second reload has the outcome of the first and
  leaves the same driver fields, the cache and the compilation database among them.
\<close>

theorem reload_twice_same:
  assumes "CMakeCache_fromPath env (cachePath env (drv s)) w =
           CMakeCache_fromPath env (cachePath env (drv s)) (disk s)"
    and "CompilationDatabase_fromFilePath env
           (path_join env (binaryDir (drv s)) ''compile_commands.json'') w =
         CompilationDatabase_fromFilePath env
           (path_join env (binaryDir (drv s)) ''compile_commands.json'') (disk s)"
  shows "(let s1 = snd (reloadPostConfigure env s);
              s2 = snd (reloadPostConfigure env (s1\<lparr>disk := w\<rparr>))
          in fst (reloadPostConfigure env (s1\<lparr>disk := w\<rparr>)) = fst (reloadPostConfigure env s) \<and>
             cmakeCache (drv s2) = cmakeCache (drv s1) \<and>
             compilationDatabase (drv s2) = compilationDatabase (drv s1) \<and>
             drv s2 = drv s1)"
  using assms
  by (simp add: reload_fields cachePath_def Let_def split: sum.splits option.splits)

text \<open>
  The theorem on a built directory: the second reload runs on the same disk, and on a
  disk where another file has appeared.
\<close>

theorem reload_twice_same_witness:
  "(let s = sim_sys (new_driver ''/p'' ''/p/b'') [] (sim_built []);
        s1 = snd (reloadPostConfigure sim_env s);
        w = (sim_built [])\<lparr>files := (''/p/new.c'', Garbage) # files (sim_built [])\<rparr>
    in cmakeCache (drv s1) = Some [(''CMAKE_PROJECT_NAME'', ''Foo'')] \<and>
       drv (snd (reloadPostConfigure sim_env s1)) = drv s1 \<and>
       drv (snd (reloadPostConfigure sim_env (s1\<lparr>disk := w\<rparr>))) = drv s1)"
proof -
  let ?s = "sim_sys (new_driver ''/p'' ''/p/b'') [] (sim_built [])"
  let ?w = "(sim_built [])\<lparr>files := (''/p/new.c'', Garbage) # files (sim_built [])\<rparr>"
  have c: "CMakeCache_fromPath sim_env (cachePath sim_env (drv ?s)) ?w =
           CMakeCache_fromPath sim_env (cachePath sim_env (drv ?s)) (disk ?s)"
    by (simp add: sim_defs sim_built_def)
  have d: "CompilationDatabase_fromFilePath sim_env
             (path_join sim_env (binaryDir (drv ?s)) ''compile_commands.json'') ?w =
           CompilationDatabase_fromFilePath sim_env
             (path_join sim_env (binaryDir (drv ?s)) ''compile_commands.json'') (disk ?s)"
    by (simp add: sim_defs sim_built_def)
  have same: "(snd (reloadPostConfigure sim_env ?s))\<lparr>disk := disk ?s\<rparr> =
              snd (reloadPostConfigure sim_env ?s)"
    by (simp add: reload_disk [symmetric])
  have k: "cmakeCache (drv (snd (reloadPostConfigure sim_env ?s))) =
           Some [(''CMAKE_PROJECT_NAME'', ''Foo'')]"
    by (simp add: reload_fields sim_defs sim_built_def)
  show ?thesis
    using reload_twice_same [OF c d] reload_twice_same [OF refl refl, of sim_env ?s] same k
    by (simp add: Let_def)
qed

subsection \<open>setKit\<close>

lemma sim_rmdir_removes: "rmdir_removes sim_env"
  by (auto simp: rmdir_removes_def sim_env_def sim_rmdir_def sim_exists_def map_of_eq_None_iff
      below_def split: if_splits)

text \<open>
  Claim C4. After every call of \<open>doSetKit\<close>, whatever its outcome, \<open>needsReconfigure\<close> is
  true, and the call has not run the build tool. Without \<open>need_clean\<close> the only call is
  the callback, on the disk as it was. With \<open>need_clean\<close> the binary directory is removed
  first: if the removal fails, \<open>doSetKit\<close> rejects with that error and the callback is
  not called; if it succeeds, the callback runs next, on the disk the removal has left,
  where the binary directory does not exist (given that a removal that succeeds leaves
  nothing at its path), and the outcome of \<open>doSetKit\<close> is the callback's.
\<close>

theorem doSetKit_rearms_cleans_calls_back:
  assumes "rmdir_removes env"
  shows "(let s' = snd (doSetKit env need_clean cb s);
              bindir = binaryDir (drv s)
          in needsReconfigure (drv s') \<and>
             filter is_Execute (calls s') = filter is_Execute (calls s) \<and>
             (if need_clean
              then (case fs_rmdir env bindir (disk s) of
                      (Inl e, w) \<Rightarrow>
                        fst (doSetKit env need_clean cb s) = Inl e \<and>
                        calls s' = calls s @ [Rmdir bindir] \<and> disk s' = w
                    | (Inr u, w) \<Rightarrow>
                        \<not> fs_exists env bindir w \<and>
                        fst (doSetKit env need_clean cb s) = fst (cb w) \<and>
                        calls s' = calls s @ [Rmdir bindir, Callback] \<and>
                        disk s' = snd (cb w))
              else fst (doSetKit env need_clean cb s) = fst (cb (disk s)) \<and>
                   calls s' = calls s @ [Callback] \<and>
                   disk s' = snd (cb (disk s))))"
proof (cases "fs_rmdir env (binaryDir (drv s)) (disk s)")
  case (Pair r w)
  obtain r' w' where cbw: "cb w = (r', w')"
    by (cases "cb w")
  obtain r0 w0 where cb0: "cb (disk s) = (r0, w0)"
    by (cases "cb (disk s)")
  have gone: "r = Inr () \<Longrightarrow> \<not> fs_exists env (binaryDir (drv s)) w"
    using assms Pair by (simp add: rmdir_removes_def)
  show ?thesis
    using Pair cbw cb0 gone
    by (cases r) (simp_all add: doSetKit_def action_defs Let_def)
qed

text \<open>
  The theorem on a configured driver in a built directory: a clean that succeeds, a
  clean that fails because a file of the directory cannot be deleted, and a kit change
  without a clean.
\<close>

theorem doSetKit_rearms_cleans_calls_back_witness:
  "(let d = (new_driver ''/p'' ''/p/b'')\<lparr>needsReconfigure := False\<rparr>;
        cb = (\<lambda>w. (Inr (), w));
        ok = doSetKit sim_env True cb (sim_sys d [] (sim_built []));
        ko = doSetKit sim_env True cb (sim_sys d [] (sim_built [''/p/b/CMakeFiles/a.o'']));
        no = doSetKit sim_env False cb (sim_sys d [] (sim_built []))
    in rmdir_removes sim_env \<and>
       fst ok = Inr () \<and> needsReconfigure (drv (snd ok)) \<and>
       calls (snd ok) = [Rmdir ''/p/b'', Callback] \<and>
       files (disk (snd ok)) = [(''/p/main.c'', Garbage)] \<and>
       fst ko = Inl (Error ''rmdir failed'') \<and> needsReconfigure (drv (snd ko)) \<and>
       calls (snd ko) = [Rmdir ''/p/b''] \<and>
       fst no = Inr () \<and> needsReconfigure (drv (snd no)) \<and>
       calls (snd no) = [Callback] \<and> disk (snd no) = sim_built [])"
proof -
  let ?d = "(new_driver ''/p'' ''/p/b'')\<lparr>needsReconfigure := False\<rparr>"
  let ?cb = "\<lambda>w::sim_disk. (Inr () :: error + unit, w)"
  have ok: "fs_rmdir sim_env ''/p/b'' (sim_built []) =
            (Inr (), (sim_built [])\<lparr>files := [(''/p/main.c'', Garbage)]\<rparr>)"
    by (simp add: sim_defs sim_built_def)
  have ko: "fs_rmdir sim_env ''/p/b'' (sim_built [''/p/b/CMakeFiles/a.o'']) =
            (Inl (Error ''rmdir failed''), sim_built [''/p/b/CMakeFiles/a.o''])"
    by (simp add: sim_defs sim_built_def)
  have st: "calls (sim_sys ?d [] w) = []" "disk (sim_sys ?d [] w) = w"
    "binaryDir (drv (sim_sys ?d [] w)) = ''/p/b''" for w
    by (simp_all add: sim_sys_def new_driver_def)
  show ?thesis
    using doSetKit_rearms_cleans_calls_back [OF sim_rmdir_removes, of True ?cb "sim_sys ?d [] (sim_built [])"]
      doSetKit_rearms_cleans_calls_back [OF sim_rmdir_removes, of True ?cb
        "sim_sys ?d [] (sim_built [''/p/b/CMakeFiles/a.o''])"]
      doSetKit_rearms_cleans_calls_back [OF sim_rmdir_removes, of False ?cb "sim_sys ?d [] (sim_built [])"]
    by (simp add: Let_def ok ko st sim_rmdir_removes)
qed

subsection \<open>compilationInfoForFile\<close>

text \<open>
  Claim C6. When the promise of the compilation database has resolved with \<open>null\<close>,
  \<open>compilationInfoForFile\<close> resolves with \<open>null\<close>. When it has resolved with a database
  that has no entry for the normalized path, \<open>compilationInfoForFile\<close> resolves with
  \<open>null\<close>. Whatever the promise has resolved with, the call resolves and leaves the
  state as it was: a missing file is not an error.
\<close>

theorem compilationInfoForFile_absent:
  "(compilationDatabase (drv s) = Inr None \<longrightarrow>
      compilationInfoForFile env p s = (Inr None, s))
   \<and> (\<forall>db. compilationDatabase (drv s) = Inr (Some db) \<and>
           normalizePath env p \<notin> fst ` set db \<longrightarrow>
           compilationInfoForFile env p s = (Inr None, s))
   \<and> (\<forall>r. compilationDatabase (drv s) = Inr r \<longrightarrow>
           (\<exists>i. compilationInfoForFile env p s = (Inr i, s)))"
  by (auto simp: compilationInfoForFile_def getCompilationInfoForUri_def map_of_eq_None_iff
      split: option.splits)

text \<open>
  The theorem on a new driver, which has no database, and on the driver after a reload
  in a built directory, asked for a file the database does not list; the file it lists
  is found.
\<close>

theorem compilationInfoForFile_absent_witness:
  "(let s0 = sim_sys (new_driver ''/p'' ''/p/b'') [] (sim_built []);
        s1 = snd (reloadPostConfigure sim_env s0)
    in compilationDatabase (drv s0) = Inr None \<and>
       fst (compilationInfoForFile sim_env ''/p/main.c'' s0) = Inr None \<and>
       compilationDatabase (drv s1) =
         Inr (Some [(''/p/main.c'', \<lparr>ci_directory = ''/p/b'', ci_command = ''cc -c main.c''\<rparr>)]) \<and>
       fst (compilationInfoForFile sim_env ''/p/other.c'' s1) = Inr None \<and>
       fst (compilationInfoForFile sim_env ''/p/main.c'' s1) =
         Inr (Some \<lparr>ci_directory = ''/p/b'', ci_command = ''cc -c main.c''\<rparr>))"
proof -
  let ?s0 = "sim_sys (new_driver ''/p'' ''/p/b'') [] (sim_built [])"
  let ?s1 = "snd (reloadPostConfigure sim_env ?s0)"
  let ?db = "[(''/p/main.c'', \<lparr>ci_directory = ''/p/b'', ci_command = ''cc -c main.c''\<rparr>)]"
  have a: "compilationDatabase (drv ?s0) = Inr None"
    by (simp add: sim_defs)
  have b: "compilationDatabase (drv ?s1) = Inr (Some ?db)"
    by (simp add: reload_fields sim_defs sim_built_def)
  have c: "normalizePath sim_env ''/p/other.c'' \<notin> fst ` set ?db"
    by (simp add: sim_env_def)
  have n: "normalizePath sim_env ''/p/main.c'' = ''/p/main.c''"
    by (simp add: sim_env_def)
  have d: "fst (compilationInfoForFile sim_env ''/p/main.c'' ?s1) =
           Inr (Some \<lparr>ci_directory = ''/p/b'', ci_command = ''cc -c main.c''\<rparr>)"
    by (simp add: compilationInfoForFile_def getCompilationInfoForUri_def b n)
  show ?thesis
    using compilationInfoForFile_absent [of ?s0 sim_env "''/p/main.c''"]
      compilationInfoForFile_absent [of ?s1 sim_env "''/p/other.c''"] a b c d
    by (simp add: Let_def)
qed

subsection \<open>cleanConfigure\<close>

lemma and_then_assoc:
  "and_then (and_then m f) g = and_then m (\<lambda>x. and_then (f x) g)"
  by (rule ext) (simp add: and_then_def split: prod.splits sum.splits)

lemma cleanConfigure_split:
  "cleanConfigure env oc = and_then (cleanConfigure_removals env) (\<lambda>u. configure env [] oc)"
  by (simp add: cleanConfigure_def cleanConfigure_removals_def and_then_assoc Let_def)

lemma and_then_unlink:
  "and_then (fs_unlink_call env p) f s =
     (case fst (fs_unlink env p (disk s)) of
        Inl e \<Rightarrow> (Inl e, (await_call (Unlink p) s)\<lparr>disk := snd (fs_unlink env p (disk s))\<rparr>)
      | Inr u \<Rightarrow> f u ((await_call (Unlink p) s)\<lparr>disk := snd (fs_unlink env p (disk s))\<rparr>))"
  by (simp add: and_then_def fs_unlink_call_def split_beta split: sum.splits)

lemma if_action: "(if c then m else n) s = (if c then m s else n s)"
  by simp

lemma removals_fields:
  fixes env :: "('w, 'c) env" and s :: "'w sys"
  defines "C \<equiv> cachePath env (drv s)"
    and "F \<equiv> path_join env (binaryDir (drv s)) ''CMakeFiles''"
  defines "u \<equiv> fs_unlink env C (disk s)"
  defines "wa \<equiv> (if fs_exists env C (disk s) then snd u else disk s)"
  defines "ufail \<equiv> fs_exists env C (disk s) \<and> isl (fst u)"
  defines "r \<equiv> fs_rmdir env F wa"
  shows "fst (cleanConfigure_removals env s) =
           (if ufail then fst u else if fs_exists env F wa then fst r else Inr ())"
    and "disk (snd (cleanConfigure_removals env s)) =
           (if ufail then snd u else if fs_exists env F wa then snd r else wa)"
    and "calls (snd (cleanConfigure_removals env s)) =
           calls s @ Exists C # (if fs_exists env C (disk s) then [Unlink C] else []) @
             (if ufail then [] else Exists F # (if fs_exists env F wa then [Rmdir F] else []))"
    and "drv (snd (cleanConfigure_removals env s)) = drv s"
    and "arrays (snd (cleanConfigure_removals env s)) = arrays s"
    and "next_ref (snd (cleanConfigure_removals env s)) = next_ref s"
  unfolding C_def F_def u_def wa_def ufail_def r_def
  by (simp_all add: cleanConfigure_removals_def steps and_then_unlink if_action
      fs_rmdir_call_def succeed_def split_beta split: sum.splits)

lemma configure_calls:
  "filter is_Execute (calls (snd (configure env [] oc s))) =
     filter is_Execute (calls s) @
       [Execute (cmakePath env) [''-H'' @ normalizePath env (sourceDir (drv s)),
                                 ''-B'' @ normalizePath env (binaryDir (drv s))]]"
  by (simp add: configure_def and_then_array_new doConfigure_calls
      split: sum.splits option.splits)

lemma removals_no_execute:
  "filter is_Execute (calls (snd (cleanConfigure_removals env s))) = filter is_Execute (calls s)"
  by (simp add: removals_fields)

text \<open>
  Claim C5. Let a deletion that succeeds leave nothing at its path, and let the removal of
  a directory create nothing. \<open>cleanConfigure\<close> is its two removals followed by
  \<open>configure\<close> with an empty argument list. If the removals reject, \<open>cleanConfigure\<close>
  rejects with the same error in the same state, and the build tool has not run. If
  they resolve, the cache file and the directory \<open>CMakeFiles\<close> of the binary directory
  are both absent from the disk on which \<open>configure\<close> then starts, and the build tool
  runs once, with the two generated arguments only. The removals reject whenever the
  cache file exists and its deletion fails, and whenever the directory exists after
  that and its removal fails.
\<close>

theorem cleanConfigure_removes_then_configures:
  assumes "unlink_removes env" and "rmdir_removes env" and "rmdir_creates_nothing env"
  shows "(let cache = cachePath env (drv s);
              cmake_files = path_join env (binaryDir (drv s)) ''CMakeFiles'';
              after_unlink = (if fs_exists env cache (disk s)
                              then snd (fs_unlink env cache (disk s)) else disk s)
          in (case cleanConfigure_removals env s of
                (Inl e, s1) \<Rightarrow>
                  cleanConfigure env oc s = (Inl e, s1) \<and>
                  filter is_Execute (calls s1) = filter is_Execute (calls s)
              | (Inr u, s1) \<Rightarrow>
                  \<not> fs_exists env cache (disk s1) \<and>
                  \<not> fs_exists env cmake_files (disk s1) \<and>
                  drv s1 = drv s \<and>
                  filter is_Execute (calls s1) = filter is_Execute (calls s) \<and>
                  cleanConfigure env oc s = configure env [] oc s1 \<and>
                  filter is_Execute (calls (snd (cleanConfigure env oc s))) =
                    filter is_Execute (calls s) @
                      [Execute (cmakePath env)
                         [''-H'' @ normalizePath env (sourceDir (drv s)),
                          ''-B'' @ normalizePath env (binaryDir (drv s))]])
           \<and> (\<forall>e. fs_exists env cache (disk s) \<and>
                   fst (fs_unlink env cache (disk s)) = Inl e \<longrightarrow>
                   fst (cleanConfigure_removals env s) = Inl e)
           \<and> (\<forall>e. (fs_exists env cache (disk s) \<longrightarrow>
                      fst (fs_unlink env cache (disk s)) = Inr ()) \<and>
                   fs_exists env cmake_files after_unlink \<and>
                   fst (fs_rmdir env cmake_files after_unlink) = Inl e \<longrightarrow>
                   fst (cleanConfigure_removals env s) = Inl e))"
proof -
  let ?C = "cachePath env (drv s)"
  let ?F = "path_join env (binaryDir (drv s)) ''CMakeFiles''"
  let ?wa = "if fs_exists env ?C (disk s) then snd (fs_unlink env ?C (disk s)) else disk s"
  obtain r s1 where rs: "cleanConfigure_removals env s = (r, s1)"
    by (cases "cleanConfigure_removals env s")
  have f: "fst (cleanConfigure_removals env s) = r" and sn: "snd (cleanConfigure_removals env s) = s1"
    by (simp_all add: rs)
  have calls1: "filter is_Execute (calls s1) = filter is_Execute (calls s)"
    using removals_no_execute [of env s] by (simp add: sn)
  have drv1: "drv s1 = drv s"
    using removals_fields(4) [of env s] by (simp add: sn)
  have whole: "cleanConfigure env oc s =
                 (case r of Inl e \<Rightarrow> (Inl e, s1) | Inr u \<Rightarrow> configure env [] oc s1)"
    by (simp add: cleanConfigure_split and_then_def rs split: sum.splits)
  have absent: "\<not> fs_exists env ?C (disk s1) \<and> \<not> fs_exists env ?F (disk s1)" if ok: "r = Inr ()"
  proof -
    have r_eq: "r = (if fs_exists env ?C (disk s) \<and> isl (fst (fs_unlink env ?C (disk s)))
                     then fst (fs_unlink env ?C (disk s))
                     else if fs_exists env ?F ?wa then fst (fs_rmdir env ?F ?wa) else Inr ())"
      using removals_fields(1) [of env s] by (simp add: f)
    have d_eq: "disk s1 = (if fs_exists env ?C (disk s) \<and> isl (fst (fs_unlink env ?C (disk s)))
                     then snd (fs_unlink env ?C (disk s))
                     else if fs_exists env ?F ?wa then snd (fs_rmdir env ?F ?wa) else ?wa)"
      using removals_fields(2) [of env s] by (simp add: sn)
    have nofail: "\<not> (fs_exists env ?C (disk s) \<and> isl (fst (fs_unlink env ?C (disk s))))"
    proof
      assume a: "fs_exists env ?C (disk s) \<and> isl (fst (fs_unlink env ?C (disk s)))"
      then have "r = fst (fs_unlink env ?C (disk s))"
        using r_eq by simp
      with ok have "fst (fs_unlink env ?C (disk s)) = Inr ()"
        by simp
      with a show False
        by simp
    qed
    have c_wa: "\<not> fs_exists env ?C ?wa"
    proof (cases "fs_exists env ?C (disk s)")
      case True
      with nofail have "fst (fs_unlink env ?C (disk s)) = Inr ()"
        by (cases "fst (fs_unlink env ?C (disk s))") simp_all
      then have "fs_unlink env ?C (disk s) = (Inr (), snd (fs_unlink env ?C (disk s)))"
        by (simp add: prod_eq_iff)
      with assms(1) have "\<not> fs_exists env ?C (snd (fs_unlink env ?C (disk s)))"
        unfolding unlink_removes_def by blast
      with True show ?thesis by simp
    next
      case False
      then show ?thesis by simp
    qed
    show ?thesis
    proof (cases "fs_exists env ?F ?wa")
      case True
      with r_eq ok nofail have "fst (fs_rmdir env ?F ?wa) = Inr ()"
        by (simp split: if_splits)
      then have rm: "fs_rmdir env ?F ?wa = (Inr (), snd (fs_rmdir env ?F ?wa))"
        by (simp add: prod_eq_iff)
      from assms(2) rm have "\<not> fs_exists env ?F (snd (fs_rmdir env ?F ?wa))"
        unfolding rmdir_removes_def by blast
      moreover from assms(3) rm c_wa have "\<not> fs_exists env ?C (snd (fs_rmdir env ?F ?wa))"
        unfolding rmdir_creates_nothing_def by blast
      ultimately show ?thesis
        using d_eq nofail True by simp
    next
      case False
      with d_eq nofail c_wa show ?thesis by simp
    qed
  qed
  have run: "filter is_Execute (calls (snd (cleanConfigure env oc s))) =
               filter is_Execute (calls s) @
                 [Execute (cmakePath env)
                    [''-H'' @ normalizePath env (sourceDir (drv s)),
                     ''-B'' @ normalizePath env (binaryDir (drv s))]]" if "r = Inr ()"
    using that whole configure_calls [of env oc s1] by (simp add: calls1 drv1)
  have first: "case cleanConfigure_removals env s of
                (Inl e, s1) \<Rightarrow>
                  cleanConfigure env oc s = (Inl e, s1) \<and>
                  filter is_Execute (calls s1) = filter is_Execute (calls s)
              | (Inr u, s1) \<Rightarrow>
                  \<not> fs_exists env ?C (disk s1) \<and>
                  \<not> fs_exists env ?F (disk s1) \<and>
                  drv s1 = drv s \<and>
                  filter is_Execute (calls s1) = filter is_Execute (calls s) \<and>
                  cleanConfigure env oc s = configure env [] oc s1 \<and>
                  filter is_Execute (calls (snd (cleanConfigure env oc s))) =
                    filter is_Execute (calls s) @
                      [Execute (cmakePath env)
                         [''-H'' @ normalizePath env (sourceDir (drv s)),
                          ''-B'' @ normalizePath env (binaryDir (drv s))]]"
  proof (cases r)
    case (Inl e)
    then show ?thesis
      using whole calls1 by (simp add: rs)
  next
    case (Inr u)
    then have "r = Inr ()" by simp
    with absent run whole calls1 drv1 show ?thesis
      by (simp add: rs)
  qed
  have second: "\<forall>e. fs_exists env ?C (disk s) \<and> fst (fs_unlink env ?C (disk s)) = Inl e \<longrightarrow>
                  fst (cleanConfigure_removals env s) = Inl e"
    by (simp add: removals_fields(1))
  have third: "\<forall>e. (fs_exists env ?C (disk s) \<longrightarrow> fst (fs_unlink env ?C (disk s)) = Inr ()) \<and>
                  fs_exists env ?F ?wa \<and> fst (fs_rmdir env ?F ?wa) = Inl e \<longrightarrow>
                  fst (cleanConfigure_removals env s) = Inl e"
    by (auto simp: removals_fields(1))
  show ?thesis
    unfolding Let_def using first second third by blast
qed

lemma sim_unlink_removes: "unlink_removes sim_env"
  by (auto simp: unlink_removes_def sim_env_def sim_unlink_def sim_exists_def map_of_eq_None_iff
      split: if_splits)

lemma sim_rmdir_creates_nothing: "rmdir_creates_nothing sim_env"
  by (auto simp: rmdir_creates_nothing_def sim_env_def sim_rmdir_def sim_exists_def
      map_of_eq_None_iff split: if_splits)

text \<open>
  The theorem on a configured driver in a built directory: a clean configure that
  succeeds, one whose cache file cannot be deleted, and one whose intermediate files
  cannot be deleted.
\<close>

theorem cleanConfigure_removes_then_configures_witness:
  "(let d = (new_driver ''/p'' ''/p/b'')\<lparr>needsReconfigure := False\<rparr>;
        s = sim_sys d [] (sim_built []);
        k1 = sim_sys d [] (sim_built [''/p/b/CMakeCache.txt'']);
        k2 = sim_sys d [] (sim_built [''/p/b/CMakeFiles/a.o''])
    in unlink_removes sim_env \<and> rmdir_removes sim_env \<and> rmdir_creates_nothing sim_env \<and>
       fs_exists sim_env ''/p/b/CMakeCache.txt'' (disk s) \<and>
       fs_exists sim_env ''/p/b/CMakeFiles'' (disk s) \<and>
       fst (cleanConfigure_removals sim_env s) = Inr () \<and>
       \<not> fs_exists sim_env ''/p/b/CMakeCache.txt'' (disk (snd (cleanConfigure_removals sim_env s))) \<and>
       \<not> fs_exists sim_env ''/p/b/CMakeFiles'' (disk (snd (cleanConfigure_removals sim_env s))) \<and>
       filter is_Execute (calls (snd (cleanConfigure sim_env None s))) =
         [Execute ''cmake'' [''-H/p'', ''-B/p/b'']] \<and>
       fst (cleanConfigure sim_env None k1) = Inl (Error ''unlink failed'') \<and>
       filter is_Execute (calls (snd (cleanConfigure sim_env None k1))) = [] \<and>
       fst (cleanConfigure sim_env None k2) = Inl (Error ''rmdir failed'') \<and>
       filter is_Execute (calls (snd (cleanConfigure sim_env None k2))) = [])"
proof -
  let ?d = "(new_driver ''/p'' ''/p/b'')\<lparr>needsReconfigure := False\<rparr>"
  let ?s = "sim_sys ?d [] (sim_built [])"
  let ?k1 = "sim_sys ?d [] (sim_built [''/p/b/CMakeCache.txt''])"
  let ?k2 = "sim_sys ?d [] (sim_built [''/p/b/CMakeFiles/a.o''])"
  have paths: "cachePath sim_env (drv (sim_sys ?d [] w)) = ''/p/b/CMakeCache.txt''"
    "path_join sim_env (binaryDir (drv (sim_sys ?d [] w))) ''CMakeFiles'' = ''/p/b/CMakeFiles''"
    "normalizePath sim_env (sourceDir (drv (sim_sys ?d [] w))) = ''/p''"
    "normalizePath sim_env (binaryDir (drv (sim_sys ?d [] w))) = ''/p/b''"
    "cmakePath sim_env = ''cmake''"
    "calls (sim_sys ?d [] w) = []" for w
    by (simp_all add: sim_defs)
  have ex: "fs_exists sim_env ''/p/b/CMakeCache.txt'' (disk ?s)"
    "fs_exists sim_env ''/p/b/CMakeFiles'' (disk ?s)"
    by (simp_all add: sim_defs sim_built_def)
  have f0: "fst (cleanConfigure_removals sim_env ?s) = Inr ()"
    by (simp add: removals_fields sim_defs sim_built_def)
  have f1: "fst (cleanConfigure_removals sim_env ?k1) = Inl (Error ''unlink failed'')"
    by (simp add: removals_fields sim_defs sim_built_def)
  have f2: "fst (cleanConfigure_removals sim_env ?k2) = Inl (Error ''rmdir failed'')"
    by (simp add: removals_fields sim_defs sim_built_def)
  note inst = cleanConfigure_removes_then_configures
    [OF sim_unlink_removes sim_rmdir_removes sim_rmdir_creates_nothing, where oc = None]
  note i0 = inst [of ?s, unfolded Let_def, THEN conjunct1, unfolded split_beta f0 sum.case]
  note i1 = inst [of ?k1, unfolded Let_def, THEN conjunct1, unfolded split_beta f1 sum.case]
  note i2 = inst [of ?k2, unfolded Let_def, THEN conjunct1, unfolded split_beta f2 sum.case]
  have a: "\<not> fs_exists sim_env ''/p/b/CMakeCache.txt'' (disk (snd (cleanConfigure_removals sim_env ?s)))"
    "\<not> fs_exists sim_env ''/p/b/CMakeFiles'' (disk (snd (cleanConfigure_removals sim_env ?s)))"
    using i0 [THEN conjunct1] i0 [THEN conjunct2, THEN conjunct1]
    by (simp_all add: paths)
  have a3: "filter is_Execute (calls (snd (cleanConfigure sim_env None ?s))) =
              [Execute ''cmake'' [''-H/p'', ''-B/p/b'']]"
    using i0 [THEN conjunct2, THEN conjunct2, THEN conjunct2, THEN conjunct2, THEN conjunct2]
    by (simp add: paths)
  have b: "fst (cleanConfigure sim_env None ?k1) = Inl (Error ''unlink failed'')"
    "filter is_Execute (calls (snd (cleanConfigure sim_env None ?k1))) = []"
    using i1 by (simp_all add: paths)
  have c: "fst (cleanConfigure sim_env None ?k2) = Inl (Error ''rmdir failed'')"
    "filter is_Execute (calls (snd (cleanConfigure sim_env None ?k2))) = []"
    using i2 by (simp_all add: paths)
  show ?thesis
    by (simp add: Let_def a a3 b c ex f0 sim_unlink_removes sim_rmdir_removes
        sim_rmdir_creates_nothing)
qed

end
